theory Spec2Isabelle
  imports Main
begin

section \<open>Configuration module: \<^verbatim>\<open>src/core/config.py\<close>\<close>

subsection \<open>Data model\<close>

text \<open>
  The process environment \<^verbatim>\<open>os.environ\<close>: a mapping from variable names to their
  text values. A variable that is unset has no entry; a variable set to the empty string
  has the entry \<open>Some []\<close>.
\<close>

type_synonym environ = "string \<rightharpoonup> string"

text \<open>The dataclass \<^verbatim>\<open>DatabaseConfig\<close> (lines 23-51): five text fields.\<close>

record DatabaseConfig =
  dbname :: string
  user :: string
  password :: string
  host :: string
  port :: string

text \<open>The dataclass \<^verbatim>\<open>AppConfig\<close> (lines 72-87).\<close>

record AppConfig =
  app_name :: string
  version :: string
  debug :: bool
  log_level :: string
  log_file_pattern :: string

text \<open>
  An object of class \<^verbatim>\<open>Config\<close> (lines 90-99). Its two attributes are assigned one after
  the other by \<^verbatim>\<open>__init__\<close>; an attribute that has not been assigned yet is \<open>None\<close>.
\<close>

record Config =
  database :: "DatabaseConfig option"
  app :: "AppConfig option"

text \<open>
  The state of the running process, as far as this module touches it:
  \<^item> \<open>heap\<close>: the \<^verbatim>\<open>Config\<close> objects allocated so far; a reference to an object is its
    index, so two references denote the identical object exactly when they are equal;
  \<^item> \<open>Config_instance\<close>: the class attribute \<^verbatim>\<open>Config._instance\<close> (line 95), a
    reference or \<open>None\<close>;
  \<^item> \<open>getenv_log\<close>: the names of the environment variables looked up so far, oldest
    first (the effect of reading the environment, made visible).
\<close>

record process =
  heap :: "Config list"
  Config_instance :: "nat option"
  getenv_log :: "string list"

text \<open>The process right after the module is loaded: nothing allocated, nothing cached.\<close>

definition process_start :: process where
  "process_start = \<lparr>heap = [], Config_instance = None, getenv_log = []\<rparr>"

subsection \<open>Programs: state and exceptions\<close>

datatype error = KeyError string

text \<open>
  A program runs on the process state and either returns a value (\<open>Inr\<close>) or raises
  (\<open>Inl\<close>); the state it leaves behind is kept in both cases, as in Python.
\<close>

type_synonym 'a prog = "process \<Rightarrow> (error + 'a) \<times> process"

definition ret :: "'a \<Rightarrow> 'a prog" where
  "ret x s = (Inr x, s)"

definition raise :: "error \<Rightarrow> 'a prog" where
  "raise e s = (Inl e, s)"

definition and_then :: "'a prog \<Rightarrow> ('a \<Rightarrow> 'b prog) \<Rightarrow> 'b prog" where
  "and_then m f s = (case m s of (Inl e, s') \<Rightarrow> (Inl e, s') | (Inr x, s') \<Rightarrow> f x s')"

definition try_except :: "'a prog \<Rightarrow> (error \<Rightarrow> 'a prog) \<Rightarrow> 'a prog" where
  "try_except m h s = (case m s of (Inl e, s') \<Rightarrow> h e s' | (Inr x, s') \<Rightarrow> (Inr x, s'))"

subsection \<open>Reading the environment\<close>

text \<open>
  \<^verbatim>\<open>os.environ[key]\<close>: the value of the variable, or \<^verbatim>\<open>KeyError\<close> when it is unset.
  The lookup is recorded in the log either way.
\<close>

definition environ_getitem :: "environ \<Rightarrow> string \<Rightarrow> string prog" where
  "environ_getitem env key s =
     (let s' = s\<lparr>getenv_log := getenv_log s @ [key]\<rparr>
      in case env key of None \<Rightarrow> raise (KeyError key) s' | Some v \<Rightarrow> ret v s')"

text \<open>
  \<^verbatim>\<open>os.getenv(key, default)\<close> is \<^verbatim>\<open>os.environ.get(key, default)\<close>: the lookup, with
  \<^verbatim>\<open>KeyError\<close> caught and answered by the default.
\<close>

definition getenv :: "environ \<Rightarrow> string \<Rightarrow> string \<Rightarrow> string prog" where
  "getenv env key dflt =
     try_except (environ_getitem env key) (\<lambda>e. case e of KeyError k \<Rightarrow> ret dflt)"

subsection \<open>\<^verbatim>\<open>DatabaseConfig\<close>\<close>

text \<open>
  The class attributes of \<^verbatim>\<open>DatabaseConfig\<close> (lines 47-51): the field defaults, which
  \<^verbatim>\<open>from_env\<close> reads as \<^verbatim>\<open>cls.dbname\<close>, ..., \<^verbatim>\<open>cls.port\<close>.
\<close>

definition DatabaseConfig_cls :: DatabaseConfig where
  "DatabaseConfig_cls =
     \<lparr>dbname = ''empls_db'', user = ''postgres'', password = ''0123'',
      host = ''localhost'', port = ''5432''\<rparr>"

text \<open>
  The constructor the dataclass generates: every keyword argument may be left out
  (\<open>None\<close>), and the field then takes the class-level default.
\<close>

definition DatabaseConfig_init ::
  "string option \<Rightarrow> string option \<Rightarrow> string option \<Rightarrow> string option \<Rightarrow> string option
     \<Rightarrow> DatabaseConfig" where
  "DatabaseConfig_init n u p h q =
     \<lparr>dbname = (case n of None \<Rightarrow> dbname DatabaseConfig_cls | Some v \<Rightarrow> v),
      user = (case u of None \<Rightarrow> user DatabaseConfig_cls | Some v \<Rightarrow> v),
      password = (case p of None \<Rightarrow> password DatabaseConfig_cls | Some v \<Rightarrow> v),
      host = (case h of None \<Rightarrow> host DatabaseConfig_cls | Some v \<Rightarrow> v),
      port = (case q of None \<Rightarrow> port DatabaseConfig_cls | Some v \<Rightarrow> v)\<rparr>"

text \<open>
  \<^verbatim>\<open>DatabaseConfig.from_env\<close> (lines 53-69): the five lookups, in the order the keyword
  arguments are written, then the constructor call.
\<close>

definition from_env :: "environ \<Rightarrow> DatabaseConfig prog" where
  "from_env env =
     and_then (getenv env ''DB_NAME'' (dbname DatabaseConfig_cls)) (\<lambda>n.
     and_then (getenv env ''DB_USER'' (user DatabaseConfig_cls)) (\<lambda>u.
     and_then (getenv env ''DB_PASSWORD'' (password DatabaseConfig_cls)) (\<lambda>p.
     and_then (getenv env ''DB_HOST'' (host DatabaseConfig_cls)) (\<lambda>h.
     and_then (getenv env ''DB_PORT'' (port DatabaseConfig_cls)) (\<lambda>q.
     ret (DatabaseConfig_init (Some n) (Some u) (Some p) (Some h) (Some q)))))))"

subsection \<open>\<^verbatim>\<open>AppConfig\<close>\<close>

text \<open>\<^verbatim>\<open>AppConfig()\<close> with no argument: every field takes its default (lines 83-87).\<close>

definition AppConfig_init :: "AppConfig prog" where
  "AppConfig_init =
     ret \<lparr>app_name = ''Employee Systems'', version = ''1.01'', debug = False,
          log_level = ''INFO'', log_file_pattern = ''app_errors_{date}.log''\<rparr>"

subsection \<open>\<^verbatim>\<open>Config\<close>: the singleton\<close>

text \<open>Allocation of a new object with no attribute set; its reference is returned.\<close>

definition Config_alloc :: "nat prog" where
  "Config_alloc s =
     (Inr (length (heap s)), s\<lparr>heap := heap s @ [\<lparr>database = None, app = None\<rparr>]\<rparr>)"

text \<open>Attribute assignment on the object a reference denotes.\<close>

definition set_database :: "nat \<Rightarrow> DatabaseConfig \<Rightarrow> unit prog" where
  "set_database r d s =
     (Inr (), s\<lparr>heap := (heap s)[r := (heap s ! r)\<lparr>database := Some d\<rparr>]\<rparr>)"

definition set_app :: "nat \<Rightarrow> AppConfig \<Rightarrow> unit prog" where
  "set_app r a s =
     (Inr (), s\<lparr>heap := (heap s)[r := (heap s ! r)\<lparr>app := Some a\<rparr>]\<rparr>)"

text \<open>\<^verbatim>\<open>Config.__init__\<close> (lines 97-99).\<close>

definition Config_init :: "environ \<Rightarrow> nat \<Rightarrow> unit prog" where
  "Config_init env self =
     and_then (from_env env) (\<lambda>d.
     and_then (set_database self d) (\<lambda>_.
     and_then AppConfig_init (\<lambda>a.
     set_app self a)))"

text \<open>The call \<^verbatim>\<open>cls()\<close>: allocate, initialise, return the reference.\<close>

definition Config_new :: "environ \<Rightarrow> nat prog" where
  "Config_new env =
     and_then Config_alloc (\<lambda>r.
     and_then (Config_init env r) (\<lambda>_.
     ret r))"

text \<open>Reading of, and assignment to, the class attribute \<^verbatim>\<open>_instance\<close>.\<close>

definition read_instance :: "nat option prog" where
  "read_instance s = (Inr (Config_instance s), s)"

definition set_instance :: "nat option \<Rightarrow> unit prog" where
  "set_instance v s = (Inr (), s\<lparr>Config_instance := v\<rparr>)"

text \<open>
  \<^verbatim>\<open>Config.get_instance\<close> (lines 101-106): the test \<^verbatim>\<open>cls._instance is None\<close>, the
  construction and assignment when it holds, and \<^verbatim>\<open>return cls._instance\<close>, which hands
  out whatever the attribute holds at that moment.
\<close>

definition get_instance :: "environ \<Rightarrow> nat option prog" where
  "get_instance env =
     and_then read_instance (\<lambda>i.
     and_then (if i = None
               then and_then (Config_new env) (\<lambda>r. set_instance (Some r))
               else ret ()) (\<lambda>_.
     read_instance))"

text \<open>\<^verbatim>\<open>Config.reset\<close> (lines 108-111).\<close>

definition reset :: "unit prog" where
  "reset = set_instance None"

subsection \<open>Runs of the singleton\<close>

text \<open>
  \<^verbatim>\<open>Config.get_instance()\<close> called \<open>n\<close> times in a row in one environment: the values
  returned, in order, and the state left behind.
\<close>

fun get_instance_times ::
  "nat \<Rightarrow> environ \<Rightarrow> process \<Rightarrow> (error + nat option) list \<times> process" where
  "get_instance_times 0 env s = ([], s)"
| "get_instance_times (Suc n) env s =
     (case get_instance env s of (x, s') \<Rightarrow>
        (case get_instance_times n env s' of (xs, s'') \<Rightarrow> (x # xs, s'')))"

text \<open>
  A run of the process is a sequence of calls of the two class methods, each made in
  the environment of its moment (the environment may change between calls).
\<close>

datatype step = GetInstance | Reset

fun exec_step :: "environ \<Rightarrow> step \<Rightarrow> process \<Rightarrow> process" where
  "exec_step env GetInstance s = snd (get_instance env s)"
| "exec_step env Reset s = snd (reset s)"

fun exec :: "(environ \<times> step) list \<Rightarrow> process \<Rightarrow> process" where
  "exec [] s = s"
| "exec ((env, c) # cs) s = exec cs (exec_step env c s)"

text \<open>
  The number of constructions in a run, counted on the calls alone: a retrieval
  constructs when it is the first one since the start (\<open>fresh\<close>) or since a reset.
\<close>

fun constructions :: "bool \<Rightarrow> step list \<Rightarrow> nat" where
  "constructions fresh [] = 0"
| "constructions fresh (GetInstance # cs) = (if fresh then 1 else 0) + constructions False cs"
| "constructions fresh (Reset # cs) = constructions True cs"

text \<open>The five variables, in the order \<^verbatim>\<open>from_env\<close> looks them up.\<close>

definition DB_VARS :: "string list" where
  "DB_VARS = [''DB_NAME'', ''DB_USER'', ''DB_PASSWORD'', ''DB_HOST'', ''DB_PORT'']"

text \<open>An object is fully built when both attributes have been assigned.\<close>

definition fully_built :: "Config \<Rightarrow> bool" where
  "fully_built c = (database c \<noteq> None \<and> app c \<noteq> None)"

text \<open>
  The cache is in order when \<^verbatim>\<open>_instance\<close> is \<open>None\<close> or refers to an allocated, fully
  built object.
\<close>

definition cache_ok :: "process \<Rightarrow> bool" where
  "cache_ok s =
     (case Config_instance s of
        None \<Rightarrow> True
      | Some r \<Rightarrow> r < length (heap s) \<and> fully_built (heap s ! r))"

text \<open>
  The record the five lookups and the constructor call produce, and the record
  \<^verbatim>\<open>AppConfig()\<close> produces, as plain values (see \<open>from_env_eq\<close> and \<open>AppConfig_init_eq\<close>).
\<close>

definition env_database :: "environ \<Rightarrow> DatabaseConfig" where
  "env_database env =
     \<lparr>dbname = (case env ''DB_NAME'' of None \<Rightarrow> ''empls_db'' | Some v \<Rightarrow> v),
      user = (case env ''DB_USER'' of None \<Rightarrow> ''postgres'' | Some v \<Rightarrow> v),
      password = (case env ''DB_PASSWORD'' of None \<Rightarrow> ''0123'' | Some v \<Rightarrow> v),
      host = (case env ''DB_HOST'' of None \<Rightarrow> ''localhost'' | Some v \<Rightarrow> v),
      port = (case env ''DB_PORT'' of None \<Rightarrow> ''5432'' | Some v \<Rightarrow> v)\<rparr>"

definition app_defaults :: AppConfig where
  "app_defaults =
     \<lparr>app_name = ''Employee Systems'', version = ''1.01'', debug = False,
      log_level = ''INFO'', log_file_pattern = ''app_errors_{date}.log''\<rparr>"

section \<open>What the operations compute\<close>

lemma getenv_eq:
  "getenv env key dflt s =
     (Inr (case env key of None \<Rightarrow> dflt | Some v \<Rightarrow> v),
      s\<lparr>getenv_log := getenv_log s @ [key]\<rparr>)"
  by (simp add: getenv_def try_except_def environ_getitem_def raise_def ret_def Let_def
      split: option.split)

lemma from_env_eq:
  "from_env env s = (Inr (env_database env), s\<lparr>getenv_log := getenv_log s @ DB_VARS\<rparr>)"
  by (simp add: from_env_def and_then_def getenv_eq ret_def DatabaseConfig_init_def
      DatabaseConfig_cls_def env_database_def DB_VARS_def)

lemma AppConfig_init_eq: "AppConfig_init s = (Inr app_defaults, s)"
  by (simp add: AppConfig_init_def app_defaults_def ret_def)

lemma Config_new_eq:
  "Config_new env s =
     (Inr (length (heap s)),
      \<lparr>heap = heap s @ [\<lparr>database = Some (env_database env), app = Some app_defaults\<rparr>],
       Config_instance = Config_instance s,
       getenv_log = getenv_log s @ DB_VARS\<rparr>)"
  by (cases s)
    (simp add: Config_new_def Config_init_def Config_alloc_def set_database_def
      set_app_def and_then_def ret_def from_env_eq AppConfig_init_eq)

lemma get_instance_None:
  "Config_instance s = None \<Longrightarrow>
   get_instance env s =
     (Inr (Some (length (heap s))),
      \<lparr>heap = heap s @ [\<lparr>database = Some (env_database env), app = Some app_defaults\<rparr>],
       Config_instance = Some (length (heap s)),
       getenv_log = getenv_log s @ DB_VARS\<rparr>)"
  by (simp add: get_instance_def and_then_def read_instance_def Config_new_eq
      set_instance_def ret_def)

lemma get_instance_Some:
  "Config_instance s = Some r \<Longrightarrow> get_instance env s = (Inr (Some r), s)"
  by (simp add: get_instance_def and_then_def read_instance_def ret_def)

lemma get_instance_cached:
  "\<exists>r. fst (get_instance env s) = Inr (Some r)
     \<and> Config_instance (snd (get_instance env s)) = Some r"
  by (cases "Config_instance s") (simp_all add: get_instance_None get_instance_Some)

lemma reset_eq: "reset s = (Inr (), s\<lparr>Config_instance := None\<rparr>)"
  by (simp add: reset_def set_instance_def)

lemma cache_ok_get_instance: "cache_ok s \<Longrightarrow> cache_ok (snd (get_instance env s))"
  by (cases "Config_instance s")
    (simp_all add: get_instance_None get_instance_Some cache_ok_def fully_built_def)

lemma cache_ok_reset: "cache_ok (snd (reset s))"
  by (simp add: reset_eq cache_ok_def)

lemma cache_ok_exec: "cache_ok s \<Longrightarrow> cache_ok (exec run s)"
proof (induction run arbitrary: s)
  case Nil
  then show ?case by simp
next
  case (Cons a run)
  obtain env c where a: "a = (env, c)" by (cases a)
  have "cache_ok (exec_step env c s)"
    using Cons.prems by (cases c) (simp_all add: cache_ok_get_instance cache_ok_reset)
  then show ?case using Cons.IH a by simp
qed

lemma cache_ok_start: "cache_ok process_start"
  by (simp add: cache_ok_def process_start_def)

lemma getenv_log_exec:
  "getenv_log (exec run s) =
     getenv_log s @
       concat (replicate (constructions (Config_instance s = None) (map snd run)) DB_VARS)"
proof (induction run arbitrary: s)
  case Nil
  then show ?case by simp
next
  case (Cons a run)
  obtain env c where a: "a = (env, c)" by (cases a)
  show ?case
  proof (cases c)
    case GetInstance
    show ?thesis
    proof (cases "Config_instance s")
      case None
      then show ?thesis using a GetInstance by (simp add: Cons.IH get_instance_None)
    next
      case (Some r)
      then show ?thesis using a GetInstance by (simp add: Cons.IH get_instance_Some)
    qed
  next
    case Reset
    then show ?thesis using a by (simp add: Cons.IH reset_eq)
  qed
qed

lemma get_instance_times_eq:
  "Config_instance s = Some r \<Longrightarrow> get_instance_times n env s = (replicate n (Inr (Some r)), s)"
  by (induction n) (simp_all add: get_instance_Some)

section \<open>Properties\<close>

text \<open>
  C1 (default fallback). Whatever the environment and the process state,
  \<^verbatim>\<open>DatabaseConfig.from_env\<close> returns a record, and for each of the five variables
  \<^verbatim>\<open>DB_NAME\<close>, \<^verbatim>\<open>DB_USER\<close>, \<^verbatim>\<open>DB_PASSWORD\<close>, \<^verbatim>\<open>DB_HOST\<close>, \<^verbatim>\<open>DB_PORT\<close> that is unset, the
  corresponding field holds the documented default: \<open>empls_db\<close>, \<open>postgres\<close>, \<open>0123\<close>,
  \<open>localhost\<close>, \<open>5432\<close>.
\<close>

theorem from_env_default_fallback:
  "\<exists>db. fst (from_env env s) = Inr db
     \<and> (env ''DB_NAME'' = None \<longrightarrow> dbname db = ''empls_db'')
     \<and> (env ''DB_USER'' = None \<longrightarrow> user db = ''postgres'')
     \<and> (env ''DB_PASSWORD'' = None \<longrightarrow> password db = ''0123'')
     \<and> (env ''DB_HOST'' = None \<longrightarrow> host db = ''localhost'')
     \<and> (env ''DB_PORT'' = None \<longrightarrow> port db = ''5432'')"
  by (simp add: from_env_eq env_database_def)

theorem from_env_default_fallback_witness:
  "\<exists>db. fst (from_env [''DB_HOST'' \<mapsto> ''db.example.internal''] process_start) = Inr db
     \<and> dbname db = ''empls_db'' \<and> user db = ''postgres'' \<and> password db = ''0123''
     \<and> port db = ''5432''"
  using from_env_default_fallback
    [of "[''DB_HOST'' \<mapsto> ''db.example.internal'']" process_start]
  by simp

text \<open>
  C2 (environment override; port stored as text). Whatever the environment and the
  process state, \<^verbatim>\<open>DatabaseConfig.from_env\<close> returns a record, and for each of the five
  variables that is set to some string, the corresponding field is exactly that string.
  The \<open>port\<close> field is a string like the others: with \<^verbatim>\<open>DB_PORT=6543\<close> it is the text
  \<open>6543\<close> (see the instance below).
\<close>

theorem from_env_environment_override:
  "\<exists>db. fst (from_env env s) = Inr db
     \<and> (\<forall>v. env ''DB_NAME'' = Some v \<longrightarrow> dbname db = v)
     \<and> (\<forall>v. env ''DB_USER'' = Some v \<longrightarrow> user db = v)
     \<and> (\<forall>v. env ''DB_PASSWORD'' = Some v \<longrightarrow> password db = v)
     \<and> (\<forall>v. env ''DB_HOST'' = Some v \<longrightarrow> host db = v)
     \<and> (\<forall>v. env ''DB_PORT'' = Some v \<longrightarrow> port db = v)"
  by (simp add: from_env_eq env_database_def)

theorem from_env_environment_override_witness:
  "\<exists>db. fst (from_env [''DB_PORT'' \<mapsto> ''6543'', ''DB_HOST'' \<mapsto> ''db.example.internal'']
               process_start) = Inr db
     \<and> port db = ''6543'' \<and> host db = ''db.example.internal''"
  using from_env_environment_override
    [of "[''DB_PORT'' \<mapsto> ''6543'', ''DB_HOST'' \<mapsto> ''db.example.internal'']" process_start]
  by auto

text \<open>
  C3 (application defaults are fixed). In every environment and every process state,
  \<^verbatim>\<open>AppConfig()\<close> returns the record with \<open>app_name = Employee Systems\<close>,
  \<open>version = 1.01\<close>, \<open>debug = False\<close>, \<open>log_level = INFO\<close> and
  \<open>log_file_pattern = app_errors_{date}.log\<close>, and the \<open>app\<close> attribute of the object
  that \<^verbatim>\<open>Config()\<close> builds is that same record: the environment has no influence on it.
\<close>

theorem app_settings_fixed:
  "fst (AppConfig_init s) =
     Inr \<lparr>app_name = ''Employee Systems'', version = ''1.01'', debug = False,
          log_level = ''INFO'', log_file_pattern = ''app_errors_{date}.log''\<rparr>
   \<and> (\<exists>r. fst (Config_new env s) = Inr r
        \<and> app (heap (snd (Config_new env s)) ! r) =
            Some \<lparr>app_name = ''Employee Systems'', version = ''1.01'', debug = False,
                  log_level = ''INFO'', log_file_pattern = ''app_errors_{date}.log''\<rparr>)"
  by (simp add: AppConfig_init_eq Config_new_eq app_defaults_def)

theorem app_settings_fixed_witness:
  "\<exists>r. fst (Config_new [''APP_NAME'' \<mapsto> ''x'', ''DEBUG'' \<mapsto> ''1'', ''LOG_LEVEL'' \<mapsto> ''DEBUG'']
              process_start) = Inr r
     \<and> map_option debug
         (app (heap (snd (Config_new
            [''APP_NAME'' \<mapsto> ''x'', ''DEBUG'' \<mapsto> ''1'', ''LOG_LEVEL'' \<mapsto> ''DEBUG'']
            process_start)) ! r)) = Some False
     \<and> map_option log_level
         (app (heap (snd (Config_new
            [''APP_NAME'' \<mapsto> ''x'', ''DEBUG'' \<mapsto> ''1'', ''LOG_LEVEL'' \<mapsto> ''DEBUG'']
            process_start)) ! r)) = Some ''INFO''"
  using app_settings_fixed
    [of process_start "[''APP_NAME'' \<mapsto> ''x'', ''DEBUG'' \<mapsto> ''1'', ''LOG_LEVEL'' \<mapsto> ''DEBUG'']"]
  by auto

text \<open>
  C4 (singleton identity; idempotent retrieval). From every process state, \<open>N \<ge> 1\<close>
  calls of \<^verbatim>\<open>Config.get_instance\<close> in a row, in one environment and with no reset in
  between, all return the reference the first call returns, and leave the process in the
  state the first call leaves: cache, objects and lookups made are those of one call.
\<close>

theorem get_instance_idempotent:
  assumes "1 \<le> N"
  shows "\<exists>r. fst (get_instance env s) = Inr (Some r)
           \<and> get_instance_times N env s
               = (replicate N (Inr (Some r)), snd (get_instance env s))"
proof -
  obtain n where N: "N = Suc n"
    using assms by (cases N) simp_all
  obtain r where r: "fst (get_instance env s) = Inr (Some r)"
    and c: "Config_instance (snd (get_instance env s)) = Some r"
    using get_instance_cached by blast
  have "get_instance_times n env (snd (get_instance env s))
          = (replicate n (Inr (Some r)), snd (get_instance env s))"
    using c by (rule get_instance_times_eq)
  then have "get_instance_times N env s
               = (replicate N (Inr (Some r)), snd (get_instance env s))"
    using r N by (simp add: case_prod_unfold)
  then show ?thesis using r by blast
qed

theorem get_instance_idempotent_witness:
  "\<exists>r. fst (get_instance [''DB_USER'' \<mapsto> ''admin''] process_start) = Inr (Some r)
     \<and> get_instance_times 3 [''DB_USER'' \<mapsto> ''admin''] process_start
         = ([Inr (Some r), Inr (Some r), Inr (Some r)],
            snd (get_instance [''DB_USER'' \<mapsto> ''admin''] process_start))"
proof -
  have "(1::nat) \<le> 3" by simp
  from get_instance_idempotent [OF this, of "[''DB_USER'' \<mapsto> ''admin'']" process_start]
  show ?thesis by (simp add: numeral_3_eq_3)
qed

text \<open>
  C5 (reset forces rebuild). Take a process state whose cache is in order, retrieve the
  instance (reference \<open>r1\<close>), call \<^verbatim>\<open>Config.reset\<close>, and retrieve again in a possibly
  different environment \<open>env2\<close> (reference \<open>r2\<close>). Then \<open>r2\<close> is a different object from
  \<open>r1\<close>; its database settings are what \<^verbatim>\<open>DatabaseConfig.from_env\<close> returns in \<open>env2\<close>, so
  every variable set in \<open>env2\<close> shows its value there; and the object behind \<open>r1\<close> is
  still allocated and is what it was after the first retrieval.
\<close>

theorem reset_forces_rebuild:
  assumes "cache_ok s"
    and "get_instance env1 s = (Inr (Some r1), s1)"
    and "reset s1 = (Inr (), s2)"
    and "get_instance env2 s2 = (Inr (Some r2), s3)"
  shows "r2 \<noteq> r1
     \<and> r1 < length (heap s1) \<and> r1 < length (heap s3) \<and> heap s3 ! r1 = heap s1 ! r1
     \<and> r2 < length (heap s3)
     \<and> (\<exists>db. fst (from_env env2 s2) = Inr db \<and> database (heap s3 ! r2) = Some db
           \<and> (\<forall>v. env2 ''DB_NAME'' = Some v \<longrightarrow> dbname db = v)
           \<and> (\<forall>v. env2 ''DB_USER'' = Some v \<longrightarrow> user db = v)
           \<and> (\<forall>v. env2 ''DB_PASSWORD'' = Some v \<longrightarrow> password db = v)
           \<and> (\<forall>v. env2 ''DB_HOST'' = Some v \<longrightarrow> host db = v)
           \<and> (\<forall>v. env2 ''DB_PORT'' = Some v \<longrightarrow> port db = v))"
proof -
  have "cache_ok (snd (get_instance env1 s))"
    using assms(1) by (rule cache_ok_get_instance)
  moreover have "Config_instance (snd (get_instance env1 s)) = Some r1"
    using get_instance_cached [of env1 s] assms(2) by simp
  ultimately have r1: "r1 < length (heap s1)"
    using assms(2) by (simp add: cache_ok_def)
  have s2: "s2 = s1\<lparr>Config_instance := None\<rparr>"
    using assms(3) by (simp add: reset_eq)
  then have n: "Config_instance s2 = None" and h2: "heap s2 = heap s1"
    by simp_all
  have r2: "r2 = length (heap s1)"
    and s3: "heap s3 = heap s1 @ [\<lparr>database = Some (env_database env2), app = Some app_defaults\<rparr>]"
    using assms(4) h2 by (auto simp add: get_instance_None [OF n])
  show ?thesis
    using r1 r2 s3 by (simp add: nth_append from_env_eq env_database_def)
qed

theorem reset_forces_rebuild_witness:
  "cache_ok process_start
   \<and> (\<exists>s1 s2 s3.
        get_instance [''DB_HOST'' \<mapsto> ''old.example''] process_start = (Inr (Some 0), s1)
      \<and> reset s1 = (Inr (), s2)
      \<and> get_instance [''DB_HOST'' \<mapsto> ''new.example''] s2 = (Inr (Some 1), s3)
      \<and> (1::nat) \<noteq> 0
      \<and> heap s3 ! 0 = heap s1 ! 0
      \<and> map_option host (database (heap s3 ! 0)) = Some ''old.example''
      \<and> map_option host (database (heap s3 ! 1)) = Some ''new.example'')"
proof -
  define s1 where "s1 = snd (get_instance [''DB_HOST'' \<mapsto> ''old.example''] process_start)"
  define s2 where "s2 = snd (reset s1)"
  define s3 where "s3 = snd (get_instance [''DB_HOST'' \<mapsto> ''new.example''] s2)"
  have n0: "Config_instance process_start = None" and l0: "heap process_start = []"
    by (simp_all add: process_start_def)
  have g1: "get_instance [''DB_HOST'' \<mapsto> ''old.example''] process_start = (Inr (Some 0), s1)"
    by (simp add: s1_def get_instance_None [OF n0] l0)
  have g2: "reset s1 = (Inr (), s2)"
    by (simp add: s2_def reset_eq)
  have n2: "Config_instance s2 = None" and l2: "length (heap s2) = 1"
    by (simp_all add: s2_def s1_def reset_eq get_instance_None [OF n0] l0)
  have g3: "get_instance [''DB_HOST'' \<mapsto> ''new.example''] s2 = (Inr (Some 1), s3)"
    by (simp add: s3_def get_instance_None [OF n2] l2)
  have old: "map_option host (database (heap s1 ! 0)) = Some ''old.example''"
    by (simp add: s1_def get_instance_None [OF n0] l0 env_database_def)
  from reset_forces_rebuild [OF cache_ok_start g1 g2 g3] g1 g2 g3 old
  show ?thesis by (auto simp add: cache_ok_start)
qed

text \<open>
  C6 (no validation rejection). Whatever the environment and the process state,
  \<^verbatim>\<open>DatabaseConfig.from_env\<close> returns a record and raises nothing, and for each of the
  five variables that is set to the empty string, the corresponding field is the empty
  string, not the default.
\<close>

theorem from_env_empty_string_kept:
  "\<exists>db. fst (from_env env s) = Inr db
     \<and> (env ''DB_NAME'' = Some [] \<longrightarrow> dbname db = [])
     \<and> (env ''DB_USER'' = Some [] \<longrightarrow> user db = [])
     \<and> (env ''DB_PASSWORD'' = Some [] \<longrightarrow> password db = [])
     \<and> (env ''DB_HOST'' = Some [] \<longrightarrow> host db = [])
     \<and> (env ''DB_PORT'' = Some [] \<longrightarrow> port db = [])"
  by (simp add: from_env_eq env_database_def)

theorem from_env_empty_string_kept_witness:
  "\<exists>db. fst (from_env [''DB_PASSWORD'' \<mapsto> [], ''DB_PORT'' \<mapsto> []] process_start) = Inr db
     \<and> password db = [] \<and> password db \<noteq> ''0123'' \<and> port db = [] \<and> port db \<noteq> ''5432''"
  using from_env_empty_string_kept
    [of "[''DB_PASSWORD'' \<mapsto> [], ''DB_PORT'' \<mapsto> []]" process_start]
  by auto

text \<open>
  C7 (no failure path). In every environment and every process state, each operation
  returns a value and raises nothing: building the database settings from the
  environment, constructing the application settings, constructing the \<^verbatim>\<open>Config\<close>
  object, retrieving the singleton, and resetting it. The \<^verbatim>\<open>KeyError\<close> of a lookup of an
  unset variable never leaves \<^verbatim>\<open>os.getenv\<close>.
\<close>

theorem operations_never_raise:
  "(\<exists>v. fst (getenv env key dflt s) = Inr v)
   \<and> (\<exists>db. fst (from_env env s) = Inr db)
   \<and> (\<exists>a. fst (AppConfig_init s) = Inr a)
   \<and> (\<exists>r. fst (Config_new env s) = Inr r)
   \<and> (\<exists>r. fst (get_instance env s) = Inr (Some r))
   \<and> fst (reset s) = Inr ()"
proof -
  have "\<exists>r. fst (get_instance env s) = Inr (Some r)"
    using get_instance_cached by blast
  then show ?thesis
    by (simp add: getenv_eq from_env_eq AppConfig_init_eq Config_new_eq reset_eq)
qed

theorem operations_never_raise_witness:
  "fst (environ_getitem Map.empty ''DB_HOST'' process_start) = Inl (KeyError ''DB_HOST'')
   \<and> fst (getenv Map.empty ''DB_HOST'' ''localhost'' process_start) = Inr ''localhost''
   \<and> (\<exists>db. fst (from_env Map.empty process_start) = Inr db)
   \<and> (\<exists>a. fst (AppConfig_init process_start) = Inr a)
   \<and> (\<exists>r. fst (Config_new Map.empty process_start) = Inr r)
   \<and> (\<exists>r. fst (get_instance Map.empty process_start) = Inr (Some r))
   \<and> fst (reset process_start) = Inr ()"
  using operations_never_raise [of Map.empty "''DB_HOST''" "''localhost''" process_start]
  by (simp add: getenv_eq environ_getitem_def raise_def)

text \<open>
  C8 (environment read once per construction). In every run of \<^verbatim>\<open>get_instance\<close> and
  \<^verbatim>\<open>reset\<close> calls from the start of the process, whatever the environment at each call,
  the lookups made are the five variables \<^verbatim>\<open>DB_NAME\<close>, \<^verbatim>\<open>DB_USER\<close>, \<^verbatim>\<open>DB_PASSWORD\<close>,
  \<^verbatim>\<open>DB_HOST\<close>, \<^verbatim>\<open>DB_PORT\<close>, each once, for every construction of the run, and nothing
  else; a construction happens at the first retrieval after the start or after a reset.
  A retrieval that finds a cached instance looks nothing up, and neither does a reset.
  After every run the cache is in order, and a retrieval returns a reference to an
  allocated object with both attributes assigned: no partially built object is visible.
\<close>

theorem environment_read_once_per_construction:
  "getenv_log (exec run process_start) =
     concat (replicate (constructions True (map snd run))
       [''DB_NAME'', ''DB_USER'', ''DB_PASSWORD'', ''DB_HOST'', ''DB_PORT''])
   \<and> (Config_instance s \<noteq> None \<longrightarrow> getenv_log (snd (get_instance env s)) = getenv_log s)
   \<and> (Config_instance s = None \<longrightarrow>
        getenv_log (snd (get_instance env s)) =
          getenv_log s @ [''DB_NAME'', ''DB_USER'', ''DB_PASSWORD'', ''DB_HOST'', ''DB_PORT''])
   \<and> getenv_log (snd (reset s)) = getenv_log s
   \<and> cache_ok (exec run process_start)
   \<and> (\<exists>r. fst (get_instance env (exec run process_start)) = Inr (Some r)
        \<and> r < length (heap (snd (get_instance env (exec run process_start))))
        \<and> fully_built (heap (snd (get_instance env (exec run process_start))) ! r))"
proof -
  have a: "getenv_log (exec run process_start) =
     concat (replicate (constructions True (map snd run))
       [''DB_NAME'', ''DB_USER'', ''DB_PASSWORD'', ''DB_HOST'', ''DB_PORT''])"
    using getenv_log_exec [of run process_start]
    by (simp add: process_start_def DB_VARS_def)
  have b: "Config_instance s \<noteq> None \<longrightarrow> getenv_log (snd (get_instance env s)) = getenv_log s"
    by (auto simp add: get_instance_Some)
  have c: "Config_instance s = None \<longrightarrow>
        getenv_log (snd (get_instance env s)) =
          getenv_log s @ [''DB_NAME'', ''DB_USER'', ''DB_PASSWORD'', ''DB_HOST'', ''DB_PORT'']"
    by (simp add: get_instance_None DB_VARS_def)
  have d: "getenv_log (snd (reset s)) = getenv_log s"
    by (simp add: reset_eq)
  have e: "cache_ok (exec run process_start)"
    using cache_ok_start by (rule cache_ok_exec)
  let ?t = "exec run process_start"
  obtain r where r: "fst (get_instance env ?t) = Inr (Some r)"
    and i: "Config_instance (snd (get_instance env ?t)) = Some r"
    using get_instance_cached by blast
  have "cache_ok (snd (get_instance env ?t))"
    using e by (rule cache_ok_get_instance)
  then have f: "r < length (heap (snd (get_instance env ?t)))
      \<and> fully_built (heap (snd (get_instance env ?t)) ! r)"
    using i by (simp add: cache_ok_def)
  show ?thesis using a b c d e r f by blast
qed

theorem environment_read_once_per_construction_witness:
  "getenv_log (exec [([''DB_HOST'' \<mapsto> ''a''], GetInstance), ([''DB_HOST'' \<mapsto> ''b''], GetInstance),
                     ([''DB_HOST'' \<mapsto> ''b''], Reset), ([''DB_HOST'' \<mapsto> ''c''], GetInstance),
                     (Map.empty, GetInstance)] process_start) =
     [''DB_NAME'', ''DB_USER'', ''DB_PASSWORD'', ''DB_HOST'', ''DB_PORT'',
      ''DB_NAME'', ''DB_USER'', ''DB_PASSWORD'', ''DB_HOST'', ''DB_PORT'']
   \<and> getenv_log (snd (get_instance Map.empty process_start)) =
       [''DB_NAME'', ''DB_USER'', ''DB_PASSWORD'', ''DB_HOST'', ''DB_PORT'']
   \<and> getenv_log
       (snd (get_instance Map.empty
          \<lparr>heap = [\<lparr>database = Some DatabaseConfig_cls, app = Some app_defaults\<rparr>],
           Config_instance = Some 0, getenv_log = [''DB_NAME'']\<rparr>)) = [''DB_NAME'']"
  using environment_read_once_per_construction
    [of "[([''DB_HOST'' \<mapsto> ''a''], GetInstance), ([''DB_HOST'' \<mapsto> ''b''], GetInstance),
          ([''DB_HOST'' \<mapsto> ''b''], Reset), ([''DB_HOST'' \<mapsto> ''c''], GetInstance),
          (Map.empty, GetInstance)]" process_start Map.empty]
    environment_read_once_per_construction
    [of "[]" "\<lparr>heap = [\<lparr>database = Some DatabaseConfig_cls, app = Some app_defaults\<rparr>],
           Config_instance = Some 0, getenv_log = [''DB_NAME'']\<rparr>" Map.empty]
  by (simp add: process_start_def)

text \<open>
  C9 (reset is idempotent). From every process state, \<^verbatim>\<open>Config.reset\<close> leaves the cache
  empty; calling it twice in a row leaves the state that calling it once leaves; and
  when the cache is empty already, the call changes nothing.
\<close>

theorem reset_idempotent:
  "Config_instance (snd (reset s)) = None
   \<and> snd (reset (snd (reset s))) = snd (reset s)
   \<and> (Config_instance s = None \<longrightarrow> snd (reset s) = s)"
  by (cases s) (simp add: reset_eq)

theorem reset_idempotent_witness:
  "Config_instance process_start = None
   \<and> snd (reset process_start) = process_start
   \<and> snd (reset (snd (reset process_start))) = process_start"
  using reset_idempotent [of process_start]
  by (simp add: process_start_def)

text \<open>
  C10 (\<^verbatim>\<open>from_env\<close> agrees with default construction). In an environment where none of
  the five variables is set, \<^verbatim>\<open>DatabaseConfig.from_env()\<close> returns the record that
  \<^verbatim>\<open>DatabaseConfig()\<close> with no argument constructs.
\<close>

theorem from_env_equals_default_construction:
  assumes "env ''DB_NAME'' = None" and "env ''DB_USER'' = None"
    and "env ''DB_PASSWORD'' = None" and "env ''DB_HOST'' = None"
    and "env ''DB_PORT'' = None"
  shows "fst (from_env env s) = Inr (DatabaseConfig_init None None None None None)"
  using assms
  by (simp add: from_env_eq env_database_def DatabaseConfig_init_def DatabaseConfig_cls_def)

theorem from_env_equals_default_construction_witness:
  "fst (from_env [''HOME'' \<mapsto> ''/root''] process_start)
     = Inr (DatabaseConfig_init None None None None None)
   \<and> DatabaseConfig_init None None None None None =
       \<lparr>dbname = ''empls_db'', user = ''postgres'', password = ''0123'',
        host = ''localhost'', port = ''5432''\<rparr>"
  using from_env_equals_default_construction [of "[''HOME'' \<mapsto> ''/root'']" process_start]
  by (simp add: DatabaseConfig_init_def DatabaseConfig_cls_def)

end
